theory Spec2Isabelle
  imports Complex_Main "HOL-Library.Multiset" "HOL-Library.Sublist"
begin

section \<open>MMSeqs2Runner (scripts/mmseqs2.py): a shallow embedding\<close>

text \<open>
  The runner of \<^verbatim>\<open>scripts/mmseqs2.py\<close> cleans a sequence, drives the MMseqs2 search
  service, selects template structures from the result table \<^verbatim>\<open>pdb70.m8\<close> and fetches
  them. The methods \<^verbatim>\<open>_cleanseq\<close>, \<^verbatim>\<open>_submit\<close>, \<^verbatim>\<open>_status\<close>, \<^verbatim>\<open>_download\<close>,
  \<^verbatim>\<open>_search_mmseqs2\<close>, \<^verbatim>\<open>process_templates\<close>, \<^verbatim>\<open>download_templates\<close> and
  \<^verbatim>\<open>shuffle_templates\<close> are embedded, each as a HOL function of its name (without the
  leading underscore). Exceptions are values of type \<open>error\<close> on the left of a sum,
  mutation is explicit state passing, and what the file does not define (the remote
  services, \<^verbatim>\<open>random.shuffle\<close>, \<^verbatim>\<open>float\<close>, the tar decoder) is a parameter, collected
  in a record \<open>env\<close>. Python strings are modelled as \<open>string\<close>: characters with code
  points below 256. A text file holds the text written to it, and is read as lines that
  end with a line feed.
\<close>

subsection \<open>Python string primitives\<close>

text \<open>
  \<^verbatim>\<open>str.upper()\<close> on ASCII letters; every other character stays as it is.
\<close>

definition upper_char :: "char \<Rightarrow> char" where
  "upper_char c =
     (case map_of (zip ''abcdefghijklmnopqrstuvwxyz'' ''ABCDEFGHIJKLMNOPQRSTUVWXYZ'') c of
        Some u \<Rightarrow> u
      | None \<Rightarrow> c)"

definition upper :: "string \<Rightarrow> string" where
  "upper s = map upper_char s"

text \<open>
  The characters that \<^verbatim>\<open>str.split()\<close> and \<^verbatim>\<open>str.rstrip()\<close> treat as white space,
  among the code points below 256: U+0009 to U+000D, U+001C to U+0020, U+0085, U+00A0.
\<close>

definition is_space :: "char \<Rightarrow> bool" where
  "is_space c = (c \<in> {CHR 0x09, CHR 0x0A, CHR 0x0B, CHR 0x0C, CHR 0x0D,
                       CHR 0x1C, CHR 0x1D, CHR 0x1E, CHR 0x1F, CHR 0x20,
                       CHR 0x85, CHR 0xA0})"

text \<open>
  \<^verbatim>\<open>s.split()\<close>: the maximal runs of characters that are not white space. The first
  argument is the run read so far.
\<close>

fun split_from :: "string \<Rightarrow> string \<Rightarrow> string list" where
  "split_from w [] = (if w = [] then [] else [w])"
| "split_from w (c # cs) =
     (if is_space c then (if w = [] then split_from [] cs else w # split_from [] cs)
      else split_from (w @ [c]) cs)"

definition split_ws :: "string \<Rightarrow> string list" where
  "split_ws s = split_from [] s"

definition rstrip :: "string \<Rightarrow> string" where
  "rstrip s = rev (dropWhile is_space (rev s))"

text \<open>
  \<^verbatim>\<open>s.split(sep)\<close> for a separator of one character: the pieces between the
  separators, empty pieces kept, so the result is never empty.
\<close>

fun split_on :: "char \<Rightarrow> string \<Rightarrow> string \<Rightarrow> string list" where
  "split_on sep w [] = [w]"
| "split_on sep w (c # cs) =
     (if c = sep then w # split_on sep [] cs else split_on sep (w @ [c]) cs)"

definition split_sep :: "char \<Rightarrow> string \<Rightarrow> string list" where
  "split_sep sep s = split_on sep [] s"

text \<open>\<^verbatim>\<open>sep.join(xs)\<close>.\<close>

fun join :: "string \<Rightarrow> string list \<Rightarrow> string" where
  "join sep [] = []"
| "join sep [x] = x"
| "join sep (x # y # ys) = x @ sep @ join sep (y # ys)"

text \<open>
  \<^verbatim>\<open>xs[:n]\<close> for a Python integer \<open>n\<close>: a negative \<open>n\<close> counts from the end.
\<close>

definition slice_to :: "'a list \<Rightarrow> int \<Rightarrow> 'a list" where
  "slice_to xs n = (if 0 \<le> n then take (nat n) xs else take (nat (int (length xs) + n)) xs)"

subsection \<open>Errors, JSON values and log records\<close>

datatype error =
    RuntimeError string
  | KeyError string
  | IndexError
  | TypeError
  | ValueError
  | RequestException
  | FileNotFoundError string
  | FileExistsError string
  | IsADirectoryError string

text \<open>
  A Python \<^verbatim>\<open>float\<close>: a finite double (a rational number), an infinity or NaN.
  Comparisons with NaN are false.
\<close>

datatype pyfloat = Finite rat | PosInf | NegInf | NaN

fun float_gt :: "pyfloat \<Rightarrow> rat \<Rightarrow> bool" where
  "float_gt (Finite q) r = (q > r)"
| "float_gt PosInf r = True"
| "float_gt NegInf r = False"
| "float_gt NaN r = False"

fun float_le :: "pyfloat \<Rightarrow> rat \<Rightarrow> bool" where
  "float_le (Finite q) r = (q \<le> r)"
| "float_le PosInf r = False"
| "float_le NegInf r = True"
| "float_le NaN r = False"

text \<open>What \<^verbatim>\<open>response.json()\<close> returns: the decoded JSON document.\<close>

datatype json =
    JNull
  | JBool bool
  | JInt int
  | JFloat pyfloat
  | JStr string
  | JArr "json list"
  | JObj "(string \<times> json) list"

datatype log_entry =
    DebugID json
  | Info string
  | Warning string
  | PrintList string "string list"

text \<open>A decoded JSON object is a \<^verbatim>\<open>dict\<close>; of two equal keys the last one counts.\<close>

definition dict_get :: "(string \<times> json) list \<Rightarrow> string \<Rightarrow> json option" where
  "dict_get kvs k = map_of (rev kvs) k"

text \<open>\<^verbatim>\<open>v[k]\<close> for a string \<open>k\<close>.\<close>

fun subscript_key :: "json \<Rightarrow> string \<Rightarrow> error + json" where
  "subscript_key (JObj kvs) k =
     (case dict_get kvs k of None \<Rightarrow> Inl (KeyError k) | Some v \<Rightarrow> Inr v)"
| "subscript_key v k = Inl TypeError"

text \<open>\<^verbatim>\<open>v[0]\<close>. The keys of a decoded object are strings, so \<open>0\<close> is never one.\<close>

fun subscript_0 :: "json \<Rightarrow> error + json" where
  "subscript_0 (JArr xs) = (case xs of [] \<Rightarrow> Inl IndexError | x # rest \<Rightarrow> Inr x)"
| "subscript_0 (JStr s) = (case s of [] \<Rightarrow> Inl IndexError | c # rest \<Rightarrow> Inr (JStr [c]))"
| "subscript_0 (JObj kvs) = Inl (KeyError ''0'')"
| "subscript_0 v = Inl TypeError"

text \<open>\<^verbatim>\<open>v == k\<close> for an integer \<open>k\<close>.\<close>

fun eq_int :: "json \<Rightarrow> int \<Rightarrow> bool" where
  "eq_int (JInt n) k = (n = k)"
| "eq_int (JFloat (Finite q)) k = (q = of_int k)"
| "eq_int (JBool b) k = ((if b then 1 else 0) = k)"
| "eq_int v k = False"

fun is_dict :: "json \<Rightarrow> bool" where
  "is_dict (JObj kvs) = True"
| "is_dict v = False"

text \<open>\<^verbatim>\<open>k in v\<close> for a \<^verbatim>\<open>dict\<close> \<open>v\<close>.\<close>

fun has_key :: "json \<Rightarrow> string \<Rightarrow> bool" where
  "has_key (JObj kvs) k = (k \<in> fst ` set kvs)"
| "has_key v k = False"

subsection \<open>\<^verbatim>\<open>_cleanseq\<close>\<close>

definition is_AZ :: "char \<Rightarrow> bool" where
  "is_AZ c = (c \<in> set ''ABCDEFGHIJKLMNOPQRSTUVWXYZ'')"

text \<open>
  \<^verbatim>\<open>_cleanseq(seq)\<close> returns the warnings it logs and the cleaned sequence.
  \<^verbatim>\<open>re.sub(r"[BJOUXZ]", "", seq)\<close> and \<^verbatim>\<open>re.sub(r"[^A-Z]", "", ...)\<close> delete
  characters; \<^verbatim>\<open>"".join(seq.split())\<close> deletes white space.
\<close>

definition cleanseq :: "string \<Rightarrow> log_entry list \<times> string" where
  "cleanseq seq =
     (let (warnings, seq1) =
        (if \<exists>aa \<in> set ''BJOUXZ''. aa \<in> set seq
         then ([Warning ''Sequence contains non-canonical amino acids!'',
                Warning ''Removing B, J, O, U, X, and Z from sequence''],
               filter (\<lambda>c. c \<notin> set ''BJOUXZ'') seq)
         else ([], seq))
      in (warnings, filter is_AZ (concat (split_ws seq1))))"

text \<open>The constructor cleans the upper-cased input: \<^verbatim>\<open>self._cleanseq(seq.upper())\<close>.\<close>

definition init_seq :: "string \<Rightarrow> log_entry list \<times> string" where
  "init_seq seq = cleanseq (upper seq)"

subsection \<open>The sidecar file \<^verbatim>\<open>template_pdbs.txt\<close>\<close>

text \<open>
  \<^verbatim>\<open>for pdb in pdbs: outfile.write(f"{ pdb },")\<close>, the first argument being what has
  been written so far.
\<close>

fun write_pdbs :: "string \<Rightarrow> string list \<Rightarrow> string" where
  "write_pdbs out [] = out"
| "write_pdbs out (pdb # pdbs) = write_pdbs (out @ pdb @ '','') pdbs"

text \<open>
  \<^verbatim>\<open>pdbs = infile.read().split(","); if pdbs[-1] == "": pdbs.pop()\<close>. Indexing an
  empty list would raise; \<open>split_sep\<close> never returns one.
\<close>

definition read_pdbs :: "string \<Rightarrow> error + string list" where
  "read_pdbs content =
     (let pdbs = split_sep CHR '','' content
      in if pdbs = [] then Inl IndexError
         else if last pdbs = [] then Inr (butlast pdbs)
         else Inr pdbs)"

subsection \<open>The runner, the world and the environment\<close>

text \<open>
  The fields that the constructor stores. \<^verbatim>\<open>self.path\<close> and \<^verbatim>\<open>self.tarfile\<close> are
  computed from them as the constructor does.
\<close>

record runner =
  job :: string
  seq :: string
  host_url :: string
  t_url :: string
  path_suffix :: string
  n_templates :: int
  shuffling_templates :: bool

definition path :: "runner \<Rightarrow> string" where
  "path self = job self @ ''_'' @ path_suffix self"

definition tarfile :: "runner \<Rightarrow> string" where
  "tarfile self = path self @ ''/out.tar.gz''"

text \<open>The requests that the runner sends, each with the parts of its URL that vary.\<close>

datatype request =
    PostTicketMsa string string
  | GetTicket string json
  | GetResultDownload string json
  | GetGpcrdbStructure string
  | GetKlifsStructuresPdbList string
  | GetKlifsStructureConformation json
  | WgetTemplates string

text \<open>
  A request fails (\<^verbatim>\<open>requests\<close> raises) or brings a response: its body, and what
  \<^verbatim>\<open>response.json()\<close> makes of it, \<open>None\<close> when the body is not JSON and the call
  raises \<^verbatim>\<open>ValueError\<close>.
\<close>

datatype response = NoResponse | Response string "json option"

text \<open>
  What the file does not define: the remote services (\<open>http\<close>, over a state \<open>'w\<close> of
  their own), the decoder of a gzipped tar archive into member names and contents,
  \<^verbatim>\<open>random.shuffle\<close> as the permutation it applies, and the builtin \<^verbatim>\<open>float\<close>.
\<close>

record 'w env =
  http :: "'w \<Rightarrow> request \<Rightarrow> response \<times> 'w"
  untar :: "string \<Rightarrow> (string \<times> string) list"
  random_shuffle :: "string list \<Rightarrow> string list"
  py_float :: "json \<Rightarrow> error + pyfloat"

text \<open>
  The world the runner acts on: the directories and the files (path to content) below
  the working directory, the state of the remote services, the requests sent so far and
  the records logged so far.
\<close>

record 'w state =
  dirs :: "string set"
  files :: "string \<rightharpoonup> string"
  net :: "'w"
  requests :: "request list"
  logged :: "log_entry list"

definition send :: "'w env \<Rightarrow> request \<Rightarrow> 'w state \<Rightarrow> response \<times> 'w state" where
  "send env req s =
     (case http env (net s) req of
        (res, w) \<Rightarrow> (res, s\<lparr>net := w, requests := requests s @ [req]\<rparr>))"

definition emit :: "log_entry \<Rightarrow> 'w state \<Rightarrow> 'w state" where
  "emit entry s = s\<lparr>logged := logged s @ [entry]\<rparr>"

text \<open>
  The directory of a relative path: what stands before its last slash, and nothing (the
  working directory, which always exists) when it has none.
\<close>

definition dirname :: "string \<Rightarrow> string" where
  "dirname p =
     (if CHR ''/'' \<in> set p then rev (tl (dropWhile (\<lambda>c. c \<noteq> CHR ''/'') (rev p))) else [])"

definition parent_exists :: "string \<Rightarrow> 'w state \<Rightarrow> bool" where
  "parent_exists p s = (dirname p = [] \<or> dirname p \<in> dirs s)"

text \<open>\<^verbatim>\<open>open(p, "w")\<close> (or \<^verbatim>\<open>"wb"\<close>) and one write of \<open>content\<close>.\<close>

definition write_file :: "string \<Rightarrow> string \<Rightarrow> 'w state \<Rightarrow> error + 'w state" where
  "write_file p content s =
     (if \<not> parent_exists p s then Inl (FileNotFoundError p)
      else if p \<in> dirs s then Inl (IsADirectoryError p)
      else Inr (s\<lparr>files := (files s)(p \<mapsto> content)\<rparr>))"

text \<open>\<open>p\<close> itself or something below it.\<close>

definition under_path :: "string \<Rightarrow> string \<Rightarrow> bool" where
  "under_path p x = (x = p \<or> prefix (p @ ''/'') x)"

text \<open>
  The shell commands are embedded by what they do to the files when they succeed.
  \<^verbatim>\<open>rm -r p\<close>:
\<close>

definition rm_r :: "string \<Rightarrow> 'w state \<Rightarrow> 'w state" where
  "rm_r p s = s\<lparr>dirs := {d \<in> dirs s. \<not> under_path p d},
                files := (\<lambda>f. if under_path p f then None else files s f)\<rparr>"

text \<open>\<^verbatim>\<open>os.mkdir(p)\<close>\<close>

definition mkdir :: "string \<Rightarrow> 'w state \<Rightarrow> error + 'w state" where
  "mkdir p s =
     (if p \<in> dirs s \<or> p \<in> dom (files s) then Inl (FileExistsError p)
      else if \<not> parent_exists p s then Inl (FileNotFoundError p)
      else Inr (s\<lparr>dirs := insert p (dirs s)\<rparr>))"

subsection \<open>\<^verbatim>\<open>_submit\<close>, \<^verbatim>\<open>_status\<close>, \<^verbatim>\<open>_download\<close>\<close>

definition submit :: "'w env \<Rightarrow> runner \<Rightarrow> 'w state \<Rightarrow> error + json \<times> 'w state" where
  "submit env self s =
     (case send env (PostTicketMsa (host_url self) (''>101'' @ [CHR 0x0A] @ seq self)) s of
        (NoResponse, s') \<Rightarrow> Inl RequestException
      | (Response body None, s') \<Rightarrow> Inr (JObj [(''status'', JStr ''UNKNOWN'')], s')
      | (Response body (Some out), s') \<Rightarrow> Inr (out, s'))"

definition status :: "'w env \<Rightarrow> runner \<Rightarrow> json \<Rightarrow> 'w state \<Rightarrow> error + json \<times> 'w state" where
  "status env self idx s =
     (case send env (GetTicket (host_url self) idx) s of
        (NoResponse, s') \<Rightarrow> Inl RequestException
      | (Response body None, s') \<Rightarrow> Inr (JObj [(''status'', JStr ''UNKNOWN'')], s')
      | (Response body (Some out), s') \<Rightarrow> Inr (out, s'))"

definition download ::
  "'w env \<Rightarrow> runner \<Rightarrow> json \<Rightarrow> string \<Rightarrow> 'w state \<Rightarrow> error + 'w state" where
  "download env self idx p s =
     (case send env (GetResultDownload (host_url self) idx) s of
        (NoResponse, s') \<Rightarrow> Inl RequestException
      | (Response body parsed, s') \<Rightarrow> write_file p body s')"

subsection \<open>\<^verbatim>\<open>_search_mmseqs2\<close>\<close>

text \<open>
  The two \<^verbatim>\<open>while\<close> loops have no bound, so they are partial functions: \<open>None\<close>
  is a loop that never ends. The pauses (\<^verbatim>\<open>time.sleep\<close>) change nothing in the world
  and are left out.
  \<^verbatim>\<open>while out["status"] in ["UNKNOWN", "RATELIMIT"]: out = self._submit()\<close>
\<close>

partial_function (option) resubmit_loop ::
  "'w env \<Rightarrow> runner \<Rightarrow> json \<Rightarrow> 'w state \<Rightarrow> (error + json \<times> 'w state) option" where
  "resubmit_loop env self out s =
     (case subscript_key out ''status'' of
        Inl e \<Rightarrow> Some (Inl e)
      | Inr st \<Rightarrow>
          if st \<in> set [JStr ''UNKNOWN'', JStr ''RATELIMIT'']
          then (case submit env self s of
                  Inl e \<Rightarrow> Some (Inl e)
                | Inr (out', s') \<Rightarrow> resubmit_loop env self out' s')
          else Some (Inr (out, s)))"

text \<open>
  \<^verbatim>\<open>while out["status"] in ["UNKNOWN", "RUNNING", "PENDING"]: out = self._status(out["id"])\<close>
\<close>

partial_function (option) poll_loop ::
  "'w env \<Rightarrow> runner \<Rightarrow> json \<Rightarrow> 'w state \<Rightarrow> (error + json \<times> 'w state) option" where
  "poll_loop env self out s =
     (case subscript_key out ''status'' of
        Inl e \<Rightarrow> Some (Inl e)
      | Inr st \<Rightarrow>
          if st \<in> set [JStr ''UNKNOWN'', JStr ''RUNNING'', JStr ''PENDING'']
          then (case subscript_key out ''id'' of
                  Inl e \<Rightarrow> Some (Inl e)
                | Inr idx \<Rightarrow>
                    (case status env self idx s of
                       Inl e \<Rightarrow> Some (Inl e)
                     | Inr (out', s') \<Rightarrow> poll_loop env self out' s'))
          else Some (Inr (out, s)))"

definition api_error_message :: string where
  "api_error_message =
     join '' '' [''MMseqs2 API is giving errors.'',
                 ''Please confirm your input is a valid protein sequence.'',
                 ''If error persists, please try again in an hour.'']"

text \<open>What follows the second loop: the download or the error.\<close>

definition finish_search :: "'w env \<Rightarrow> runner \<Rightarrow> json \<Rightarrow> 'w state \<Rightarrow> error + 'w state" where
  "finish_search env self out s =
     (case subscript_key out ''status'' of
        Inl e \<Rightarrow> Inl e
      | Inr st \<Rightarrow>
          if st = JStr ''COMPLETE''
          then (case subscript_key out ''id'' of
                  Inl e \<Rightarrow> Inl e
                | Inr idx \<Rightarrow> download env self idx (tarfile self) s)
          else if st = JStr ''ERROR'' then Inl (RuntimeError api_error_message)
          else Inr s)"

definition search_mmseqs2 :: "'w env \<Rightarrow> runner \<Rightarrow> 'w state \<Rightarrow> (error + 'w state) option" where
  "search_mmseqs2 env self s =
     (if tarfile self \<in> dom (files s) then Some (Inr s)
      else case submit env self s of
        Inl e \<Rightarrow> Some (Inl e)
      | Inr (out, s1) \<Rightarrow>
          (case resubmit_loop env self out s1 of
             None \<Rightarrow> None
           | Some (Inl e) \<Rightarrow> Some (Inl e)
           | Some (Inr (out2, s2)) \<Rightarrow>
               (case subscript_key out2 ''id'' of
                  Inl e \<Rightarrow> Some (Inl e)
                | Inr idx \<Rightarrow>
                    (case poll_loop env self out2 (emit (DebugID idx) s2) of
                       None \<Rightarrow> None
                     | Some (Inl e) \<Rightarrow> Some (Inl e)
                     | Some (Inr (out3, s3)) \<Rightarrow> Some (finish_search env self out3 s3)))))"

subsection \<open>\<^verbatim>\<open>download_templates\<close>\<close>

text \<open>
  \<^verbatim>\<open>wget -q -O - url | tar xzf - -C p/\<close> sends one request and unpacks the body
  into the directory \<open>p\<close>; without a response, or without the directory, nothing is
  unpacked.
\<close>

fun unpack :: "string \<Rightarrow> (string \<times> string) list \<Rightarrow> (string \<rightharpoonup> string) \<Rightarrow> (string \<rightharpoonup> string)" where
  "unpack p [] fs = fs"
| "unpack p ((name, content) # members) fs = unpack p members (fs(p @ ''/'' @ name \<mapsto> content))"

definition wget_tar :: "'w env \<Rightarrow> string \<Rightarrow> string \<Rightarrow> 'w state \<Rightarrow> 'w state" where
  "wget_tar env url p s =
     (case send env (WgetTemplates url) s of
        (NoResponse, s') \<Rightarrow> s'
      | (Response body parsed, s') \<Rightarrow>
          (if p \<in> dirs s' then s'\<lparr>files := unpack p (untar env body) (files s')\<rparr> else s'))"

text \<open>\<^verbatim>\<open>cp src dst\<close> and \<^verbatim>\<open>touch p\<close>\<close>

definition cp :: "string \<Rightarrow> string \<Rightarrow> 'w state \<Rightarrow> 'w state" where
  "cp src dst s =
     (case files s src of
        None \<Rightarrow> s
      | Some content \<Rightarrow>
          if parent_exists dst s \<and> dst \<notin> dirs s
          then s\<lparr>files := (files s)(dst \<mapsto> content)\<rparr>
          else s)"

definition touch :: "string \<Rightarrow> 'w state \<Rightarrow> 'w state" where
  "touch p s =
     (if parent_exists p s \<and> p \<notin> dom (files s) \<and> p \<notin> dirs s
      then s\<lparr>files := (files s)(p \<mapsto> [])\<rparr>
      else s)"

text \<open>
  \<^verbatim>\<open>download_templates(pdbs)\<close> returns the path (or the empty string), the list
  object \<open>pdbs\<close> of the caller as the call leaves it, and the world.
  \<^verbatim>\<open>random.shuffle(pdbs)\<close> permutes that list object in place;
  \<^verbatim>\<open>pdbs = ",".join(pdbs[: self.n_templates])\<close> then binds the local name to a new
  string.
\<close>

definition download_templates ::
  "'w env \<Rightarrow> runner \<Rightarrow> string list \<Rightarrow> 'w state \<Rightarrow> error + string \<times> string list \<times> 'w state" where
  "download_templates env self pdbs s =
     (let p = job self @ ''_env/templates_101'';
          s1 = (if p \<in> dirs s then rm_r p s else s)
      in if length pdbs = 0
         then Inr ('''', pdbs, emit (Warning ''No templates found.'') s1)
         else
           (case (if p \<notin> dirs s1 then mkdir p s1 else Inr s1) of
              Inl e \<Rightarrow> Inl e
            | Inr s2 \<Rightarrow>
                (let shuffled = (if length pdbs > 1 \<and> shuffling_templates self
                                 then random_shuffle env pdbs else pdbs);
                     joined = join '','' (slice_to shuffled (n_templates self));
                     s3 = emit (Info (''TEMPLATE PDBS USED: '' @ joined)) s2;
                     s4 = wget_tar env (t_url self @ ''/'' @ joined) p s3;
                     s5 = cp (p @ ''/pdb70_a3m.ffindex'') (p @ ''/pdb70_cs219.ffindex'') s4;
                     s6 = touch (p @ ''/pdb70_cs219.ffdata'') s5
                 in Inr (p, shuffled, s6))))"

text \<open>
  The codes that the call asks the template service for:
  \<^verbatim>\<open>pdbs[: self.n_templates]\<close> after the shuffle, before the join.
\<close>

definition requested_codes :: "'w env \<Rightarrow> runner \<Rightarrow> string list \<Rightarrow> string list" where
  "requested_codes env self pdbs =
     slice_to (if length pdbs > 1 \<and> shuffling_templates self
               then random_shuffle env pdbs else pdbs) (n_templates self)"

subsection \<open>\<^verbatim>\<open>shuffle_templates\<close>\<close>

text \<open>Returns the path, the runner (whose shuffle flag it may set) and the world.\<close>

definition shuffle_templates ::
  "'w env \<Rightarrow> runner \<Rightarrow> 'w state \<Rightarrow> error + string \<times> runner \<times> 'w state" where
  "shuffle_templates env self s =
     (case files s (path self @ ''/template_pdbs.txt'') of
        None \<Rightarrow> Inl (FileNotFoundError (path self @ ''/template_pdbs.txt''))
      | Some content \<Rightarrow>
          (case read_pdbs content of
             Inl e \<Rightarrow> Inl e
           | Inr pdbs \<Rightarrow>
               (let s1 = emit (PrintList ''READ_LIST: '' pdbs) s;
                    self1 = (if length pdbs > 1 then self\<lparr>shuffling_templates := True\<rparr> else self);
                    s2 = (if length pdbs > 1 then s1
                          else emit (Warning ''Impossible to shuffle with 1 template only.'') s1)
                in case download_templates env self1 pdbs s2 of
                     Inl e \<Rightarrow> Inl e
                   | Inr (ret, pdbs', s3) \<Rightarrow> Inr (ret, self1, s3))))"

subsection \<open>\<^verbatim>\<open>process_templates\<close>\<close>

text \<open>
  An element of the argument \<^verbatim>\<open>templates\<close>: a string (an activation state or a PDB
  code) or a tuple of strings (the conformation criteria).
\<close>

datatype tmpl = TStr string | TTuple "string list"

text \<open>\<^verbatim>\<open>len(t)\<close> and \<^verbatim>\<open>t[i]\<close>; the latter is read below \<^verbatim>\<open>len(t) == 3\<close> only.\<close>

fun tmpl_len :: "tmpl \<Rightarrow> nat" where
  "tmpl_len (TStr s) = length s"
| "tmpl_len (TTuple xs) = length xs"

fun tmpl_item :: "tmpl \<Rightarrow> nat \<Rightarrow> string" where
  "tmpl_item (TStr s) i = [s ! i]"
| "tmpl_item (TTuple xs) i = xs ! i"

text \<open>\<^verbatim>\<open>[t.upper() for t in templates if isinstance(t, str)]\<close>\<close>

fun templates_upper :: "tmpl list \<Rightarrow> string list" where
  "templates_upper [] = []"
| "templates_upper (TStr t # ts) = upper t # templates_upper ts"
| "templates_upper (TTuple xs # ts) = templates_upper ts"

definition activation_states :: "string list" where
  "activation_states = [''Active'', ''Inactive'', ''Intermediate'', ''G protein'', ''Arrestin'']"

text \<open>\<^verbatim>\<open>templates[0] in ["Active", ...]\<close>: a tuple equals none of the strings.\<close>

fun is_activation_state :: "tmpl \<Rightarrow> bool" where
  "is_activation_state (TStr a) = (a \<in> set activation_states)"
| "is_activation_state (TTuple xs) = False"

fun tmpl_str :: "tmpl \<Rightarrow> string" where
  "tmpl_str (TStr a) = a"
| "tmpl_str (TTuple xs) = []"

text \<open>\<^verbatim>\<open>r = requests.get(url); rj = r.json()\<close>\<close>

definition get_json :: "'w env \<Rightarrow> request \<Rightarrow> 'w state \<Rightarrow> error + json \<times> 'w state" where
  "get_json env req s =
     (case send env req s of
        (NoResponse, s') \<Rightarrow> Inl RequestException
      | (Response body None, s') \<Rightarrow> Inl ValueError
      | (Response body (Some rj), s') \<Rightarrow> Inr (rj, s'))"

text \<open>
  The state of the loop over the table: \<^verbatim>\<open>pdbs\<close>, \<^verbatim>\<open>check_duplicates\<close> and the world.
\<close>

type_synonym 'w selection = "string list \<times> string list \<times> 'w state"

text \<open>\<^verbatim>\<open>pdbs.append(pdb); check_duplicates.append(pdbid)\<close>\<close>

definition accept :: "string \<Rightarrow> string \<Rightarrow> string list \<Rightarrow> string list \<Rightarrow> 'w state \<Rightarrow> 'w selection" where
  "accept pdb pdbid pdbs check_duplicates s = (pdbs @ [pdb], check_duplicates @ [pdbid], s)"

text \<open>
  The two tests on the answer of GPCRdb: whether the row is appended.
\<close>

definition activation_match :: "json \<Rightarrow> string \<Rightarrow> error + bool" where
  "activation_match rj activation_state =
     (if \<not> is_dict rj then Inr False
      else case subscript_key rj ''state'' of
        Inl e \<Rightarrow> Inl e
      | Inr st \<Rightarrow>
          if st = JStr activation_state then Inr True
          else if has_key rj ''signalling_protein''
          then (case subscript_key rj ''signalling_protein'' of
                  Inl e \<Rightarrow> Inl e
                | Inr sp \<Rightarrow>
                    (case subscript_key sp ''type'' of
                       Inl e \<Rightarrow> Inl e
                     | Inr ty \<Rightarrow> Inr (ty = JStr activation_state)))
          else Inr False)"

text \<open>The body of the first \<^verbatim>\<open>if\<close> of the loop (the activation state).\<close>

definition activation_step ::
  "'w env \<Rightarrow> tmpl list \<Rightarrow> string \<Rightarrow> string \<Rightarrow> 'w selection \<Rightarrow> error + 'w selection" where
  "activation_step env templates pdb pdbid sel =
     (case sel of (pdbs, check_duplicates, s) \<Rightarrow>
        if is_activation_state (hd templates) \<and> pdbid \<notin> set check_duplicates
           \<and> pdbid \<notin> set (templates_upper templates)
        then (case get_json env (GetGpcrdbStructure pdbid) s of
                Inl e \<Rightarrow> Inl e
              | Inr (rj, s1) \<Rightarrow>
                  (case activation_match rj (tmpl_str (hd templates)) of
                     Inl e \<Rightarrow> Inl e
                   | Inr matches \<Rightarrow>
                       Inr (if matches then accept pdb pdbid pdbs check_duplicates s1
                            else (pdbs, check_duplicates, s1))))
        else Inr sel)"

text \<open>The three checks of the conformation criteria, in the order of the source.\<close>

definition check_criteria :: "tmpl \<Rightarrow> error + string \<times> string \<times> string" where
  "check_criteria t =
     (case (if tmpl_item t 0 \<in> set [''in'', ''out'', ''out-like''] then Inr (tmpl_item t 0)
            else if tmpl_item t 0 = ''all'' then Inr ''all''
            else Inl (RuntimeError ''DFG value invalid'')) of
        Inl e \<Rightarrow> Inl e
      | Inr dfg \<Rightarrow>
          (case (if tmpl_item t 1 \<in> set [''in'', ''out''] then Inr (tmpl_item t 1)
                 else if tmpl_item t 1 = ''all'' then Inr ''all''
                 else Inl (RuntimeError ''ac_helix value invalid'')) of
             Inl e \<Rightarrow> Inl e
           | Inr ac_helix \<Rightarrow>
               (if tmpl_item t 2 \<in> set [''yes'', ''no'', ''all'']
                then Inr (dfg, ac_helix, tmpl_item t 2)
                else Inl (RuntimeError ''salt_bridge value invalid''))))"

text \<open>
  \<^verbatim>\<open>float(rj[0]["salt_bridge_17_24"]) > 0 and float(rj[0]["salt_bridge_17_24"]) <= 4.5\<close>
\<close>

definition ref_sb :: "'w env \<Rightarrow> json \<Rightarrow> error + string" where
  "ref_sb env rj =
     (case subscript_0 rj of
        Inl e \<Rightarrow> Inl e
      | Inr r0 \<Rightarrow>
          (case subscript_key r0 ''salt_bridge_17_24'' of
             Inl e \<Rightarrow> Inl e
           | Inr v \<Rightarrow>
               (case py_float env v of
                  Inl e \<Rightarrow> Inl e
                | Inr d \<Rightarrow> Inr (if float_gt d 0 \<and> float_le d 4.5 then ''yes'' else ''no''))))"

text \<open>\<^verbatim>\<open>rj[0][key] == v\<close>\<close>

definition field_eq :: "json \<Rightarrow> string \<Rightarrow> string \<Rightarrow> error + bool" where
  "field_eq rj key v =
     (case subscript_0 rj of
        Inl e \<Rightarrow> Inl e
      | Inr r0 \<Rightarrow>
          (case subscript_key r0 key of
             Inl e \<Rightarrow> Inl e
           | Inr x \<Rightarrow> Inr (x = JStr v)))"

text \<open>\<^verbatim>\<open>a and b\<close>: \<open>b\<close> is not evaluated, and cannot raise, when \<open>a\<close> is false.\<close>

definition and_also :: "error + bool \<Rightarrow> error + bool \<Rightarrow> error + bool" where
  "and_also a b = (case a of Inl e \<Rightarrow> Inl e | Inr x \<Rightarrow> if x then b else Inr False)"

text \<open>The eight branches on the answer of KLIFS, as the source lists them.\<close>

definition conformation_match ::
  "'w env \<Rightarrow> string \<Rightarrow> string \<Rightarrow> string \<Rightarrow> json \<Rightarrow> error + bool" where
  "conformation_match env dfg ac_helix salt_bridge rj =
     (case ref_sb env rj of
        Inl e \<Rightarrow> Inl e
      | Inr sb \<Rightarrow>
          if dfg \<noteq> ''all'' \<and> ac_helix \<noteq> ''all'' \<and> salt_bridge \<noteq> ''all''
          then and_also (field_eq rj ''DFG'' dfg)
                 (and_also (field_eq rj ''ac_helix'' ac_helix) (Inr (salt_bridge = sb)))
          else if dfg \<noteq> ''all'' \<and> ac_helix \<noteq> ''all'' \<and> salt_bridge = ''all''
          then and_also (field_eq rj ''DFG'' dfg) (field_eq rj ''ac_helix'' ac_helix)
          else if dfg \<noteq> ''all'' \<and> ac_helix = ''all'' \<and> salt_bridge \<noteq> ''all''
          then and_also (field_eq rj ''DFG'' dfg) (Inr (salt_bridge = sb))
          else if dfg \<noteq> ''all'' \<and> ac_helix = ''all'' \<and> salt_bridge = ''all''
          then field_eq rj ''DFG'' dfg
          else if dfg = ''all'' \<and> ac_helix \<noteq> ''all'' \<and> salt_bridge \<noteq> ''all''
          then and_also (field_eq rj ''ac_helix'' ac_helix) (Inr (salt_bridge = sb))
          else if dfg = ''all'' \<and> ac_helix \<noteq> ''all'' \<and> salt_bridge = ''all''
          then field_eq rj ''ac_helix'' ac_helix
          else if dfg = ''all'' \<and> ac_helix = ''all'' \<and> salt_bridge \<noteq> ''all''
          then Inr (salt_bridge = sb)
          else if dfg = ''all'' \<and> ac_helix = ''all'' \<and> salt_bridge = ''all''
          then Inr True
          else Inr False)"

text \<open>The body of the second \<^verbatim>\<open>if\<close> of the loop (the conformation criteria).\<close>

definition conformation_step ::
  "'w env \<Rightarrow> tmpl list \<Rightarrow> string \<Rightarrow> string \<Rightarrow> 'w selection \<Rightarrow> error + 'w selection" where
  "conformation_step env templates pdb pdbid sel =
     (case sel of (pdbs, check_duplicates, s) \<Rightarrow>
        (case check_criteria (hd templates) of
           Inl e \<Rightarrow> Inl e
         | Inr (dfg, ac_helix, salt_bridge) \<Rightarrow>
             (case get_json env (GetKlifsStructuresPdbList pdbid) s of
                Inl e \<Rightarrow> Inl e
              | Inr (rj, s1) \<Rightarrow>
                  (case subscript_0 rj of
                     Inl e \<Rightarrow> Inl e
                   | Inr r0 \<Rightarrow>
                       if eq_int r0 400 then Inr (pdbs, check_duplicates, s1)
                       else (case subscript_key r0 ''structure_ID'' of
                               Inl e \<Rightarrow> Inl e
                             | Inr structure_ID \<Rightarrow>
                                 (case get_json env (GetKlifsStructureConformation structure_ID) s1 of
                                    Inl e \<Rightarrow> Inl e
                                  | Inr (rj2, s2) \<Rightarrow>
                                      (case conformation_match env dfg ac_helix salt_bridge rj2 of
                                         Inl e \<Rightarrow> Inl e
                                       | Inr matches \<Rightarrow>
                                           Inr (if matches
                                                then accept pdb pdbid pdbs check_duplicates s2
                                                else (pdbs, check_duplicates, s2)))))))))"

text \<open>
  The \<^verbatim>\<open>elif pdb in templates\<close> of the second \<^verbatim>\<open>if\<close>: the row is appended and
  logged, with the columns 0, 1, 2 and 10 of the row.
\<close>

definition literal_step :: "string list \<Rightarrow> 'w selection \<Rightarrow> error + 'w selection" where
  "literal_step sl sel =
     (case sel of (pdbs, check_duplicates, s) \<Rightarrow>
        if length sl < 11 then Inl IndexError
        else Inr (pdbs @ [sl ! 1], check_duplicates,
                  emit (Info (sl ! 0 @ [CHR 0x09] @ sl ! 1 @ [CHR 0x09] @ sl ! 2
                              @ [CHR 0x09] @ sl ! 10)) s))"

text \<open>\<^verbatim>\<open>pdb.split("_")[0].upper()\<close>\<close>

definition pdbid_of :: "string \<Rightarrow> string" where
  "pdbid_of pdb = upper (hd (split_sep CHR ''_'' pdb))"

text \<open>One turn of the loop over the lines of the table.\<close>

definition process_line ::
  "'w env \<Rightarrow> tmpl list \<Rightarrow> string \<Rightarrow> 'w selection \<Rightarrow> error + 'w selection" where
  "process_line env templates line sel =
     (let sl = split_ws (rstrip line)
      in if length sl < 2 then Inl IndexError
         else if templates = [] then Inr sel
         else
           (case activation_step env templates (sl ! 1) (pdbid_of (sl ! 1)) sel of
              Inl e \<Rightarrow> Inl e
            | Inr (pdbs, check_duplicates, s) \<Rightarrow>
                if tmpl_len (hd templates) = 3 \<and> pdbid_of (sl ! 1) \<notin> set check_duplicates
                   \<and> TStr (pdbid_of (sl ! 1)) \<notin> set templates
                then conformation_step env templates (sl ! 1) (pdbid_of (sl ! 1))
                       (pdbs, check_duplicates, s)
                else if TStr (sl ! 1) \<in> set templates
                then literal_step sl (pdbs, check_duplicates, s)
                else Inr (pdbs, check_duplicates, s)))"

fun scan_table ::
  "'w env \<Rightarrow> tmpl list \<Rightarrow> string list \<Rightarrow> 'w selection \<Rightarrow> error + 'w selection" where
  "scan_table env templates [] sel = Inr sel"
| "scan_table env templates (line # lines) sel =
     (case process_line env templates line sel of
        Inl e \<Rightarrow> Inl e
      | Inr sel' \<Rightarrow> scan_table env templates lines sel')"

text \<open>
  \<^verbatim>\<open>for line in infile\<close>: the lines of a text, each with its line feed. The first
  argument is the line read so far.
\<close>

fun lines_from :: "string \<Rightarrow> string \<Rightarrow> string list" where
  "lines_from cur [] = (if cur = [] then [] else [cur])"
| "lines_from cur (c # cs) =
     (if c = CHR 0x0A then (cur @ [c]) # lines_from [] cs else lines_from (cur @ [c]) cs)"

text \<open>
  The candidate list of \<^verbatim>\<open>process_templates\<close>: the list \<^verbatim>\<open>pdbs\<close> when the loop over
  the table \<^verbatim>\<open>pdb70.m8\<close> ends.
\<close>

definition select_templates ::
  "'w env \<Rightarrow> runner \<Rightarrow> tmpl list \<Rightarrow> 'w state \<Rightarrow> error + 'w selection" where
  "select_templates env self templates s =
     (case files s (path self @ ''/pdb70.m8'') of
        None \<Rightarrow> Inl (FileNotFoundError (path self @ ''/pdb70.m8''))
      | Some table \<Rightarrow> scan_table env templates (lines_from [] table) ([], [], s))"

definition process_templates ::
  "'w env \<Rightarrow> runner \<Rightarrow> tmpl list \<Rightarrow> 'w state \<Rightarrow> error + string \<times> 'w state" where
  "process_templates env self templates s =
     (let p = job self @ ''_env/templates_101'';
          s1 = (if p \<in> dirs s then rm_r p s else s);
          s2 = emit (Info (join [CHR 0x09] [''seq'', ''pdb'', ''cid'', ''evalue''])) s1
      in case select_templates env self templates s2 of
           Inl e \<Rightarrow> Inl e
         | Inr (pdbs, check_duplicates, s3) \<Rightarrow>
             (case write_file (path self @ ''/template_pdbs.txt'') (write_pdbs [] pdbs) s3 of
                Inl e \<Rightarrow> Inl e
              | Inr s4 \<Rightarrow>
                  (case download_templates env self pdbs s4 of
                     Inl e \<Rightarrow> Inl e
                   | Inr (ret, pdbs', s5) \<Rightarrow> Inr (ret, s5))))"

text \<open>
  What the proof of the duplicate check maintains along the loop: \<^verbatim>\<open>check_duplicates\<close>
  holds the PDB ids of \<^verbatim>\<open>pdbs\<close>, in order, each once.
\<close>

definition dedup_inv :: "'w selection \<Rightarrow> bool" where
  "dedup_inv sel = (case sel of (pdbs, check_duplicates, s) \<Rightarrow>
      check_duplicates = map pdbid_of pdbs \<and> distinct check_duplicates)"

subsection \<open>A scripted service, for running the model on examples\<close>

text \<open>
  The state of the service is the list of the responses still to come; each request
  takes the next one, and an exhausted list does not respond.
\<close>

definition scripted :: "response list \<Rightarrow> request \<Rightarrow> response \<times> response list" where
  "scripted w req = (case w of [] \<Rightarrow> (NoResponse, []) | r # rs \<Rightarrow> (r, rs))"

text \<open>
  An environment, a runner and a world for the examples: the shuffle reverses the list,
  \<^verbatim>\<open>float\<close> converts JSON numbers, the archive decoder finds no member.
\<close>

definition example_env :: "response list env" where
  "example_env =
     \<lparr>http = scripted,
      untar = (\<lambda>body. []),
      random_shuffle = rev,
      py_float = (\<lambda>v. case v of JFloat d \<Rightarrow> Inr d
                          | JInt n \<Rightarrow> Inr (Finite (of_int n))
                          | _ \<Rightarrow> Inl TypeError)\<rparr>"

definition example_runner :: runner where
  "example_runner =
     \<lparr>job = ''test_0a1b2'', seq = ''MKV'', host_url = ''https://a3m.mmseqs.com'',
      t_url = ''https://a3m-templates.mmseqs.com/template'', path_suffix = ''env'',
      n_templates = 20, shuffling_templates = False\<rparr>"

definition example_world :: "(string \<rightharpoonup> string) \<Rightarrow> response list \<Rightarrow> response list state" where
  "example_world fs script =
     \<lparr>dirs = {''test_0a1b2_env''}, files = fs, net = script, requests = [], logged = []\<rparr>"

text \<open>
  A result table of three rows, two of them chains of one structure, with the twelve
  columns of the \<^verbatim>\<open>m8\<close> format.
\<close>

definition example_table :: string where
  "example_table =
     ''101 1abc_A 0.9 9 0 0 1 9 1 9 1e-5 50'' @ [CHR 0x0A] @
     ''101 1abc_B 0.8 9 1 0 1 9 1 9 1e-4 40'' @ [CHR 0x0A] @
     ''101 2xyz_A 0.7 9 2 0 1 9 1 9 1e-3 30'' @ [CHR 0x0A]"

section \<open>Properties\<close>

subsection \<open>String primitives\<close>

lemma split_from_subset: "set (concat (split_from w s)) \<subseteq> set w \<union> set s"
proof (induction s arbitrary: w)
  case Nil
  show ?case by simp
next
  case (Cons c cs)
  have e: "set (concat (split_from [] cs)) \<subseteq> set cs"
    using Cons.IH [of "[]"] by simp
  have n: "set (concat (split_from (w @ [c]) cs)) \<subseteq> set w \<union> insert c (set cs)"
    using Cons.IH [of "w @ [c]"] by auto
  show ?case
  proof (cases "is_space c")
    case True
    with e show ?thesis by (cases "w = []") auto
  next
    case False
    with n show ?thesis by simp
  qed
qed

lemma split_ws_subset: "set (concat (split_ws s)) \<subseteq> set s"
  using split_from_subset [of "[]" s] by (simp add: split_ws_def)




lemma mset_take_subseteq: "mset (take n xs) \<subseteq># mset xs"
proof -
  have "mset xs = mset (take n xs) + mset (drop n xs)"
    by (metis append_take_drop_id mset_append)
  then show ?thesis by simp
qed

text \<open>The definitions that running the model on an example unfolds.\<close>

lemmas eval_defs =
  example_env_def example_runner_def example_world_def example_table_def scripted_def
  process_templates_def select_templates_def process_line_def activation_step_def
  conformation_step_def literal_step_def check_criteria_def conformation_match_def
  activation_match_def ref_sb_def field_eq_def and_also_def accept_def get_json_def
  send_def emit_def write_file_def rm_r_def mkdir_def under_path_def wget_tar_def cp_def
  touch_def download_templates_def requested_codes_def slice_to_def pdbid_of_def
  split_ws_def split_sep_def rstrip_def is_space_def upper_def upper_char_def
  activation_states_def path_def tarfile_def dict_get_def dirname_def parent_exists_def
  Let_def

subsection \<open>The sequence cleaner\<close>

text \<open>
  Claim C9. For every input string, the sequence returned by \<^verbatim>\<open>_cleanseq\<close> holds only
  upper-case letters A to Z and none of B, J, O, U, X, Z; and whenever the input (which
  the constructor has upper-cased) holds one of B, J, O, U, X, Z, the two warnings are
  logged.
\<close>

theorem cleanseq_canonical_uppercase:
  "(\<forall>c \<in> set (snd (cleanseq sq)). is_AZ c \<and> c \<notin> set ''BJOUXZ'') \<and>
   ((\<exists>aa \<in> set ''BJOUXZ''. aa \<in> set sq) \<longrightarrow>
      fst (cleanseq sq) =
        [Warning ''Sequence contains non-canonical amino acids!'',
         Warning ''Removing B, J, O, U, X, and Z from sequence''])"
proof (cases "\<exists>aa \<in> set ''BJOUXZ''. aa \<in> set sq")
  case True
  let ?seq1 = "filter (\<lambda>c. c \<notin> set ''BJOUXZ'') sq"
  have out: "snd (cleanseq sq) = filter is_AZ (concat (split_ws ?seq1))"
    using True by (simp add: cleanseq_def)
  have "set (concat (split_ws ?seq1)) \<subseteq> set ?seq1"
    by (rule split_ws_subset)
  then have "\<forall>c \<in> set (snd (cleanseq sq)). is_AZ c \<and> c \<notin> set ''BJOUXZ''"
    unfolding out by auto
  moreover have "fst (cleanseq sq) =
        [Warning ''Sequence contains non-canonical amino acids!'',
         Warning ''Removing B, J, O, U, X, and Z from sequence'']"
    using True by (simp add: cleanseq_def)
  ultimately show ?thesis by blast
next
  case False
  have out: "snd (cleanseq sq) = filter is_AZ (concat (split_ws sq))"
    using False by (simp add: cleanseq_def)
  have "set (concat (split_ws sq)) \<subseteq> set sq"
    by (rule split_ws_subset)
  with False have "\<forall>c \<in> set (snd (cleanseq sq)). is_AZ c \<and> c \<notin> set ''BJOUXZ''"
    unfolding out by auto
  with False show ?thesis by blast
qed

text \<open>
  The cleaner on the upper-cased input \<^verbatim>\<open>mk vb1lz\<close>: the letters B and Z, the blank
  and the digit go, and the warnings are logged.
\<close>

theorem cleanseq_canonical_uppercase_witness:
  "upper ''mk vb1lz'' = ''MK VB1LZ''
   \<and> fst (cleanseq ''MK VB1LZ'') =
       [Warning ''Sequence contains non-canonical amino acids!'',
        Warning ''Removing B, J, O, U, X, and Z from sequence'']
   \<and> snd (cleanseq ''MK VB1LZ'') = ''MKVL''
   \<and> CHR ''B'' \<notin> set (snd (cleanseq ''MK VB1LZ''))"
proof -
  have up: "upper ''mk vb1lz'' = ''MK VB1LZ''"
    by (simp add: upper_def upper_char_def)
  have out: "snd (cleanseq ''MK VB1LZ'') = ''MKVL''"
    by (simp add: cleanseq_def split_ws_def is_space_def is_AZ_def)
  have ex: "\<exists>aa \<in> set ''BJOUXZ''. aa \<in> set ''MK VB1LZ''" by simp
  from cleanseq_canonical_uppercase [of "''MK VB1LZ''"] ex
  have w: "fst (cleanseq ''MK VB1LZ'') =
       [Warning ''Sequence contains non-canonical amino acids!'',
        Warning ''Removing B, J, O, U, X, and Z from sequence'']"
    by blast
  from cleanseq_canonical_uppercase [of "''MK VB1LZ''"]
  have "\<forall>c \<in> set (snd (cleanseq ''MK VB1LZ'')). is_AZ c \<and> c \<notin> set ''BJOUXZ''"
    by blast
  then have b: "CHR ''B'' \<notin> set (snd (cleanseq ''MK VB1LZ''))" by auto
  from up w out b show ?thesis by blast
qed

subsection \<open>The sidecar round trip\<close>



subsection \<open>The search job\<close>

text \<open>
  Claim C5. If the archive \<^verbatim>\<open>out.tar.gz\<close> is on disk, \<^verbatim>\<open>_search_mmseqs2\<close> returns at
  once, without an error and with the world as it was: no request is added to those sent
  (no submit, no poll, no download), and the state of the services is untouched.
\<close>

theorem search_mmseqs2_archive_exists:
  "tarfile self \<in> dom (files s) \<Longrightarrow> search_mmseqs2 env self s = Some (Inr s)"
  by (simp add: search_mmseqs2_def)

theorem search_mmseqs2_archive_exists_witness:
  "search_mmseqs2 example_env example_runner
     (example_world [''test_0a1b2_env/out.tar.gz'' \<mapsto> ''archive'']
        [Response ''ticket'' (Some (JObj [(''id'', JStr ''t1''), (''status'', JStr ''COMPLETE'')]))])
   = Some (Inr (example_world [''test_0a1b2_env/out.tar.gz'' \<mapsto> ''archive'']
        [Response ''ticket'' (Some (JObj [(''id'', JStr ''t1''), (''status'', JStr ''COMPLETE'')]))]))
   \<and> requests (example_world [''test_0a1b2_env/out.tar.gz'' \<mapsto> ''archive'']
        [Response ''ticket'' (Some (JObj [(''id'', JStr ''t1''), (''status'', JStr ''COMPLETE'')]))])
     = []"
proof -
  let ?w = "example_world [''test_0a1b2_env/out.tar.gz'' \<mapsto> ''archive'']
        [Response ''ticket'' (Some (JObj [(''id'', JStr ''t1''), (''status'', JStr ''COMPLETE'')]))]"
  have h: "tarfile example_runner \<in> dom (files ?w)"
    by (simp add: tarfile_def path_def example_runner_def example_world_def)
  from search_mmseqs2_archive_exists [OF h, of example_env] show ?thesis
    by (simp add: example_world_def)
qed

text \<open>
  A body that is not JSON makes \<^verbatim>\<open>_submit\<close> and \<^verbatim>\<open>_status\<close> return the status
  UNKNOWN without raising. The dictionary they return has no \<^verbatim>\<open>id\<close>.
\<close>

lemma submit_unparseable:
  "http env (net s) (PostTicketMsa (host_url self) (''>101'' @ [CHR 0x0A] @ seq self))
     = (Response body None, w) \<Longrightarrow>
   submit env self s =
     Inr (JObj [(''status'', JStr ''UNKNOWN'')],
          s\<lparr>net := w, requests := requests s @
               [PostTicketMsa (host_url self) (''>101'' @ [CHR 0x0A] @ seq self)]\<rparr>)"
  by (simp add: submit_def send_def)

lemma status_unparseable:
  "http env (net s) (GetTicket (host_url self) idx) = (Response body None, w) \<Longrightarrow>
   status env self idx s =
     Inr (JObj [(''status'', JStr ''UNKNOWN'')],
          s\<lparr>net := w, requests := requests s @ [GetTicket (host_url self) idx]\<rparr>)"
  by (simp add: status_def send_def)

text \<open>The first loop takes UNKNOWN as a reason to submit again, and can: it needs no ticket.\<close>

lemma resubmit_loop_unknown:
  assumes "subscript_key out ''status'' = Inr (JStr ''UNKNOWN'')"
    and "submit env self s = Inr (out', s')"
  shows "resubmit_loop env self out s = resubmit_loop env self out' s'"
  by (subst resubmit_loop.simps) (use assms in simp)

text \<open>
  The second loop after a status body that is not JSON: whatever the ticket was, the
  next turn finds no \<^verbatim>\<open>id\<close> in what \<^verbatim>\<open>_status\<close> returned.
\<close>

lemma poll_loop_unparseable_status:
  assumes st: "subscript_key out ''status'' = Inr st"
    and pending: "st \<in> set [JStr ''UNKNOWN'', JStr ''RUNNING'', JStr ''PENDING'']"
    and idx: "subscript_key out ''id'' = Inr idx"
    and garbled: "http env (net s) (GetTicket (host_url self) idx) = (Response body None, w)"
  shows "poll_loop env self out s = Some (Inl (KeyError ''id''))"
proof -
  let ?s' = "s\<lparr>net := w, requests := requests s @ [GetTicket (host_url self) idx]\<rparr>"
  let ?unknown = "JObj [(''status'', JStr ''UNKNOWN'')]"
  have again: "poll_loop env self ?unknown ?s' = Some (Inl (KeyError ''id''))"
    by (subst poll_loop.simps) (simp add: dict_get_def)
  have "poll_loop env self out s = poll_loop env self ?unknown ?s'"
    by (subst poll_loop.simps) (use st pending idx status_unparseable [OF garbled] in simp)
  with again show ?thesis by simp
qed

text \<open>
  Claim C6, which the code breaks. The first loop does submit again after a body that
  is not JSON. The second loop also takes UNKNOWN as a reason to poll again, but it reads
  the ticket from \<^verbatim>\<open>out["id"]\<close>, and the dictionary \<^verbatim>\<open>{"status": "UNKNOWN"}\<close> that
  \<^verbatim>\<open>_status\<close> has just returned holds no such key: the job ends with a
  \<^verbatim>\<open>KeyError\<close>. Here the service accepts the job (RUNNING), answers the first
  poll with a body that is not JSON, and would have answered the next one with COMPLETE.
\<close>

theorem search_mmseqs2_unparseable_status:
  "search_mmseqs2 example_env example_runner
     (example_world Map.empty
        [Response ''running'' (Some (JObj [(''id'', JStr ''t1''), (''status'', JStr ''RUNNING'')])),
         Response ''<html>Bad Gateway</html>'' None,
         Response ''complete'' (Some (JObj [(''id'', JStr ''t1''), (''status'', JStr ''COMPLETE'')])),
         Response ''archive'' None])
   = Some (Inl (KeyError ''id''))"
  by (simp add: search_mmseqs2_def tarfile_def path_def submit_def status_def send_def
      scripted_def resubmit_loop.simps poll_loop.simps dict_get_def emit_def
      example_env_def example_runner_def example_world_def)

subsection \<open>Fetching the templates\<close>

lemma dirname_child: "CHR ''/'' \<notin> set name \<Longrightarrow> dirname (d @ CHR ''/'' # name) = d"
proof -
  assume no: "CHR ''/'' \<notin> set name"
  have "dropWhile (\<lambda>c. c \<noteq> CHR ''/'') (rev name @ CHR ''/'' # rev d)
        = dropWhile (\<lambda>c. c \<noteq> CHR ''/'') (CHR ''/'' # rev d)"
    by (rule dropWhile_append2) (use no in auto)
  then show ?thesis by (simp add: dirname_def)
qed

lemma dirname_bundle: "dirname (j @ ''_env/templates_101'') = j @ ''_env''"
  using dirname_child [of "''templates_101''" "j @ ''_env''"] by simp

lemma wget_tar_requests: "requests (wget_tar env url p s) = requests s @ [WgetTemplates url]"
  by (auto simp: wget_tar_def send_def split: prod.splits response.splits)

lemma cp_requests: "requests (cp src dst s) = requests s"
  by (simp add: cp_def split: option.splits)

lemma touch_requests: "requests (touch p s) = requests s"
  by (simp add: touch_def)

text \<open>
  With candidates, the working directory in place and no plain file in the way of the
  bundle directory, the call returns: the bundle path, the list as the shuffle left it,
  and a world in which exactly one request, for the requested codes, has been added.
\<close>

lemma download_templates_nonempty:
  assumes ne: "pdbs \<noteq> []"
    and wd: "job self @ ''_env'' \<in> dirs s"
    and nofile: "job self @ ''_env/templates_101'' \<in> dirs s
                 \<or> job self @ ''_env/templates_101'' \<notin> dom (files s)"
  shows "\<exists>s'. download_templates env self pdbs s =
            Inr (job self @ ''_env/templates_101'',
                 (if length pdbs > 1 \<and> shuffling_templates self then random_shuffle env pdbs else pdbs),
                 s')
          \<and> requests s' = requests s @
               [WgetTemplates (t_url self @ ''/'' @ join '','' (requested_codes env self pdbs))]"
proof (cases "job self @ ''_env/templates_101'' \<in> dirs s")
  case True
  with ne wd show ?thesis
    by (simp add: download_templates_def Let_def mkdir_def rm_r_def under_path_def domIff
        parent_exists_def dirname_bundle
        wget_tar_requests cp_requests touch_requests emit_def requested_codes_def)
next
  case False
  with ne wd nofile show ?thesis
    by (simp add: download_templates_def Let_def mkdir_def domIff
        parent_exists_def dirname_bundle
        wget_tar_requests cp_requests touch_requests emit_def requested_codes_def)
qed

text \<open>
  Claim C10. Called with an empty candidate list, \<^verbatim>\<open>download_templates\<close> logs the
  warning, returns the empty string and makes no directory (every directory afterwards
  was there before, and the bundle directory is not among them); a bundle directory
  \<^verbatim>\<open>templates_101\<close> that was there before the call is removed with all below it. No
  request is sent.
\<close>

theorem download_templates_empty:
  "\<exists>s'. download_templates env self [] s = Inr ('''', [], s')
      \<and> logged s' = logged s @ [Warning ''No templates found.'']
      \<and> job self @ ''_env/templates_101'' \<notin> dirs s'
      \<and> dirs s' \<subseteq> dirs s
      \<and> (job self @ ''_env/templates_101'' \<in> dirs s \<longrightarrow>
           (\<forall>x. under_path (job self @ ''_env/templates_101'') x \<longrightarrow>
                x \<notin> dirs s' \<and> files s' x = None))
      \<and> requests s' = requests s"
proof (cases "job self @ ''_env/templates_101'' \<in> dirs s")
  case True
  then show ?thesis
    by (simp add: download_templates_def Let_def emit_def rm_r_def under_path_def)
next
  case False
  then show ?thesis
    by (simp add: download_templates_def Let_def emit_def)
qed

text \<open>
  An old bundle with one file: after the call with no candidate only the working
  directory is left.
\<close>

theorem download_templates_empty_witness:
  "''test_0a1b2_env/templates_101'' \<in>
      dirs ((example_world [''test_0a1b2_env/templates_101/pdb70_a3m.ffindex'' \<mapsto> ''old''] [])
              \<lparr>dirs := {''test_0a1b2_env'', ''test_0a1b2_env/templates_101''}\<rparr>)
   \<and> (\<exists>s'. download_templates example_env example_runner []
              ((example_world [''test_0a1b2_env/templates_101/pdb70_a3m.ffindex'' \<mapsto> ''old''] [])
                 \<lparr>dirs := {''test_0a1b2_env'', ''test_0a1b2_env/templates_101''}\<rparr>)
            = Inr ('''', [], s')
          \<and> logged s' = [Warning ''No templates found.'']
          \<and> dirs s' = {''test_0a1b2_env''}
          \<and> files s' ''test_0a1b2_env/templates_101/pdb70_a3m.ffindex'' = None
          \<and> requests s' = [])"
proof -
  let ?w = "(example_world [''test_0a1b2_env/templates_101/pdb70_a3m.ffindex'' \<mapsto> ''old''] [])
              \<lparr>dirs := {''test_0a1b2_env'', ''test_0a1b2_env/templates_101''}\<rparr>"
  have there: "''test_0a1b2_env/templates_101'' \<in> dirs ?w" by simp
  have j: "job example_runner @ ''_env/templates_101'' = ''test_0a1b2_env/templates_101''"
    by (simp add: example_runner_def)
  have below: "under_path ''test_0a1b2_env/templates_101''
          ''test_0a1b2_env/templates_101/pdb70_a3m.ffindex''"
    by (simp add: under_path_def)
  from download_templates_empty [of example_env example_runner ?w] obtain s' where
    run: "download_templates example_env example_runner [] ?w = Inr ('''', [], s')"
    and lg: "logged s' = logged ?w @ [Warning ''No templates found.'']"
    and gone: "job example_runner @ ''_env/templates_101'' \<notin> dirs s'"
    and sub: "dirs s' \<subseteq> dirs ?w"
    and rm: "job example_runner @ ''_env/templates_101'' \<in> dirs ?w \<longrightarrow>
           (\<forall>x. under_path (job example_runner @ ''_env/templates_101'') x \<longrightarrow>
                x \<notin> dirs s' \<and> files s' x = None)"
    and rq: "requests s' = requests ?w"
    by blast
  from rm there below have f: "files s' ''test_0a1b2_env/templates_101/pdb70_a3m.ffindex'' = None"
    unfolding j by blast
  have d: "dirs s' = {''test_0a1b2_env''}"
    using run by (simp add: eval_defs) auto
  from run lg f d rq there show ?thesis by (simp add: example_world_def)
qed

text \<open>
  Claim C7. For every non-empty candidate list of \<open>n\<close> codes and every limit
  \<^verbatim>\<open>n_templates\<close> (a count, so not negative), with \<^verbatim>\<open>random.shuffle\<close> a permutation,
  the working directory in place and no plain file in the way of the bundle directory:
  \<^verbatim>\<open>download_templates\<close> returns and sends exactly one request to the template
  service, for the comma-joined requested codes. These are the first \<^verbatim>\<open>n_templates\<close>
  entries of the list after the optional shuffle; there are \<open>min n n_templates\<close> of them;
  and every code among them comes from the input list, no more often than it stands
  there.
\<close>

theorem download_templates_requested_codes:
  assumes ne: "pdbs \<noteq> []"
    and limit: "0 \<le> n_templates self"
    and perm: "mset (random_shuffle env pdbs) = mset pdbs"
    and wd: "job self @ ''_env'' \<in> dirs s"
    and nofile: "job self @ ''_env/templates_101'' \<in> dirs s
                 \<or> job self @ ''_env/templates_101'' \<notin> dom (files s)"
  shows "\<exists>ret pdbs' s'.
           download_templates env self pdbs s = Inr (ret, pdbs', s')
         \<and> requests s' = requests s @
              [WgetTemplates (t_url self @ ''/'' @ join '','' (requested_codes env self pdbs))]
         \<and> requested_codes env self pdbs = take (nat (n_templates self)) pdbs'
         \<and> pdbs' = (if length pdbs > 1 \<and> shuffling_templates self
                     then random_shuffle env pdbs else pdbs)
         \<and> length (requested_codes env self pdbs) = min (length pdbs) (nat (n_templates self))
         \<and> mset (requested_codes env self pdbs) \<subseteq># mset pdbs"
proof -
  let ?shuffled = "if length pdbs > 1 \<and> shuffling_templates self then random_shuffle env pdbs else pdbs"
  from download_templates_nonempty [OF ne wd nofile] obtain s' where
    run: "download_templates env self pdbs s = Inr (job self @ ''_env/templates_101'', ?shuffled, s')"
    and rq: "requests s' = requests s @
               [WgetTemplates (t_url self @ ''/'' @ join '','' (requested_codes env self pdbs))]"
    by blast
  have codes: "requested_codes env self pdbs = take (nat (n_templates self)) ?shuffled"
    using limit by (simp add: requested_codes_def slice_to_def)
  have ms: "mset ?shuffled = mset pdbs"
    using perm by simp
  then have "size (mset ?shuffled) = size (mset pdbs)" by simp
  then have len: "length ?shuffled = length pdbs" by simp
  have n: "length (requested_codes env self pdbs) = min (length pdbs) (nat (n_templates self))"
    unfolding codes using len by simp
  have "mset (take (nat (n_templates self)) ?shuffled) \<subseteq># mset ?shuffled"
    by (rule mset_take_subseteq)
  with ms codes have sub: "mset (requested_codes env self pdbs) \<subseteq># mset pdbs" by simp
  from run rq codes n sub show ?thesis by blast
qed

text \<open>
  Ten candidates, the limit 3, the shuffle on (here it reverses the list): three of the
  ten codes are requested.
\<close>

theorem download_templates_requested_codes_witness:
  "requested_codes example_env (example_runner\<lparr>n_templates := 3, shuffling_templates := True\<rparr>)
      [''c0_A'', ''c1_A'', ''c2_A'', ''c3_A'', ''c4_A'', ''c5_A'', ''c6_A'', ''c7_A'', ''c8_A'', ''c9_A'']
     = [''c9_A'', ''c8_A'', ''c7_A'']
   \<and> (\<exists>ret pdbs' s'.
         download_templates example_env
           (example_runner\<lparr>n_templates := 3, shuffling_templates := True\<rparr>)
           [''c0_A'', ''c1_A'', ''c2_A'', ''c3_A'', ''c4_A'', ''c5_A'', ''c6_A'', ''c7_A'', ''c8_A'', ''c9_A'']
           (example_world Map.empty [Response ''tgz'' None]) = Inr (ret, pdbs', s')
       \<and> requests s' =
           [WgetTemplates ''https://a3m-templates.mmseqs.com/template/c9_A,c8_A,c7_A''])"
proof -
  let ?self = "example_runner\<lparr>n_templates := 3, shuffling_templates := True\<rparr>"
  let ?pdbs = "[''c0_A'', ''c1_A'', ''c2_A'', ''c3_A'', ''c4_A'', ''c5_A'', ''c6_A'', ''c7_A'',
                ''c8_A'', ''c9_A'']"
  let ?w = "example_world Map.empty [Response ''tgz'' None]"
  have ne: "?pdbs \<noteq> []" by simp
  have limit: "0 \<le> n_templates ?self" by simp
  have perm: "mset (random_shuffle example_env ?pdbs) = mset ?pdbs"
    by (simp only: example_env_def env.simps mset_rev)
  have wd: "job ?self @ ''_env'' \<in> dirs ?w"
    by (simp add: example_runner_def example_world_def)
  have nofile: "job ?self @ ''_env/templates_101'' \<in> dirs ?w
       \<or> job ?self @ ''_env/templates_101'' \<notin> dom (files ?w)"
    by (simp add: example_world_def)
  have codes: "requested_codes example_env ?self ?pdbs = [''c9_A'', ''c8_A'', ''c7_A'']"
    by (simp add: requested_codes_def slice_to_def example_env_def example_runner_def)
  from download_templates_requested_codes [OF ne limit perm wd nofile] obtain ret pdbs' s' where
    run: "download_templates example_env ?self ?pdbs ?w = Inr (ret, pdbs', s')"
    and rq: "requests s' = requests ?w @
              [WgetTemplates (t_url ?self @ ''/'' @ join '','' (requested_codes example_env ?self ?pdbs))]"
    by blast
  from rq have "requests s' =
           [WgetTemplates ''https://a3m-templates.mmseqs.com/template/c9_A,c8_A,c7_A'']"
    unfolding codes by (simp add: example_world_def example_runner_def)
  with run codes show ?thesis by blast
qed

text \<open>
  Claim C3 as the specification states it fails: with the shuffle on, the list of the
  caller is not what it was. \<^verbatim>\<open>random.shuffle(pdbs)\<close> works on the list object it is
  given, which is the caller's. Here the shuffle swaps the two codes.
\<close>

theorem download_templates_mutates_caller_list:
  "map_sum id (fst \<circ> snd)
     (download_templates example_env (example_runner\<lparr>shuffling_templates := True\<rparr>)
        [''1abc_A'', ''2xyz_B''] (example_world Map.empty [Response ''tgz'' None]))
   = Inr [''2xyz_B'', ''1abc_A'']"
  by (simp add: eval_defs)

text \<open>
  Claim C3, amended. When \<^verbatim>\<open>download_templates\<close> returns, the list of the caller is
  unchanged if the shuffle flag is off or the list has at most one element; otherwise it
  is the list as \<^verbatim>\<open>random.shuffle\<close> permuted it, so it holds the same codes, each as
  often as before, when the shuffle is a permutation. The truncation never touches it.
\<close>

theorem download_templates_caller_list:
  assumes "download_templates env self pdbs s = Inr (ret, pdbs', s')"
  shows "(\<not> (1 < length pdbs \<and> shuffling_templates self) \<longrightarrow> pdbs' = pdbs)
       \<and> (1 < length pdbs \<and> shuffling_templates self \<longrightarrow> pdbs' = random_shuffle env pdbs)
       \<and> (mset (random_shuffle env pdbs) = mset pdbs \<longrightarrow> mset pdbs' = mset pdbs)"
  using assms
  by (auto simp: download_templates_def Let_def split: if_splits sum.splits)

theorem download_templates_caller_list_witness:
  "\<exists>ret pdbs' s'.
     download_templates example_env example_runner [''1abc_A'', ''2xyz_B'']
       (example_world Map.empty [Response ''tgz'' None]) = Inr (ret, pdbs', s')
     \<and> pdbs' = [''1abc_A'', ''2xyz_B'']"
proof -
  have ne: "[''1abc_A'', ''2xyz_B''] \<noteq> []" by simp
  have wd: "job example_runner @ ''_env'' \<in> dirs (example_world Map.empty [Response ''tgz'' None])"
    by (simp add: example_runner_def example_world_def)
  have nofile: "job example_runner @ ''_env/templates_101''
         \<in> dirs (example_world Map.empty [Response ''tgz'' None])
       \<or> job example_runner @ ''_env/templates_101''
         \<notin> dom (files (example_world Map.empty [Response ''tgz'' None]))"
    by (simp add: example_world_def)
  from download_templates_nonempty [OF ne wd nofile, of example_env] obtain ret pdbs' s' where
    run: "download_templates example_env example_runner [''1abc_A'', ''2xyz_B'']
       (example_world Map.empty [Response ''tgz'' None]) = Inr (ret, pdbs', s')"
    by blast
  have off: "\<not> (1 < length [''1abc_A'', ''2xyz_B''] \<and> shuffling_templates example_runner)"
    by (simp add: example_runner_def)
  from download_templates_caller_list [OF run] off have "pdbs' = [''1abc_A'', ''2xyz_B'']"
    by blast
  with run show ?thesis by blast
qed

subsection \<open>Selecting the templates\<close>

lemma activation_step_tuple:
  "activation_step env (TTuple xs # rest) pdb pdbid sel = Inr sel"
  by (simp add: activation_step_def split: prod.splits)

lemma check_criteria_valid:
  assumes "dfg \<in> set [''in'', ''out'', ''out-like'', ''all'']"
    and "ac_helix \<in> set [''in'', ''out'', ''all'']"
    and "salt_bridge \<in> set [''yes'', ''no'', ''all'']"
  shows "check_criteria (TTuple [dfg, ac_helix, salt_bridge]) = Inr (dfg, ac_helix, salt_bridge)"
  using assms by (auto simp: check_criteria_def)


lemma get_json_parsed:
  "http env (net s) req = (Response body (Some rj), w) \<Longrightarrow>
   get_json env req s = Inr (rj, s\<lparr>net := w, requests := requests s @ [req]\<rparr>)"
  by (simp add: get_json_def send_def)

lemma ref_sb_observed:
  assumes "dict_get observed ''salt_bridge_17_24'' = Some obs_salt"
    and "py_float env obs_salt = Inr distance"
  shows "ref_sb env (JArr (JObj observed # others)) =
           Inr (if float_gt distance 0 \<and> float_le distance 4.5 then ''yes'' else ''no'')"
  using assms by (simp add: ref_sb_def)

lemma field_eq_observed:
  "dict_get observed key = Some x \<Longrightarrow>
   field_eq (JArr (JObj observed # others)) key v = Inr (x = JStr v)"
  by (simp add: field_eq_def)

text \<open>
  The eight branches are one conjunction: each criteria field is \<^verbatim>\<open>all\<close> or equals
  what was observed.
\<close>

lemma conformation_match_conjunction:
  assumes sb: "ref_sb env rj = Inr sb"
    and d: "field_eq rj ''DFG'' dfg = Inr d"
    and h: "field_eq rj ''ac_helix'' ac_helix = Inr h"
  shows "conformation_match env dfg ac_helix salt_bridge rj =
           Inr ((dfg = ''all'' \<or> d) \<and> (ac_helix = ''all'' \<or> h)
                \<and> (salt_bridge = ''all'' \<or> salt_bridge = sb))"
proof (cases "dfg = ''all''")
  case dfg_all: True
  show ?thesis
  proof (cases "ac_helix = ''all''")
    case True
    with dfg_all sb show ?thesis
      by (cases "salt_bridge = ''all''") (simp_all add: conformation_match_def)
  next
    case False
    with dfg_all sb h show ?thesis
      by (cases "salt_bridge = ''all''") (simp_all add: conformation_match_def and_also_def)
  qed
next
  case dfg_set: False
  show ?thesis
  proof (cases "ac_helix = ''all''")
    case True
    with dfg_set sb d show ?thesis
      by (cases "salt_bridge = ''all''") (simp_all add: conformation_match_def and_also_def)
  next
    case False
    with dfg_set sb d h show ?thesis
      by (cases "salt_bridge = ''all''") (simp_all add: conformation_match_def and_also_def)
  qed
qed

text \<open>
  Claim C2. Given conformation criteria \<open>(dfg, ac_helix, salt_bridge)\<close> with values of
  the allowed sets, and a row of the table that reaches the conformation service (its PDB
  id is not yet in \<^verbatim>\<open>check_duplicates\<close> and not in the caller's list) and resolves there
  (the list request answers with a record that holds a \<^verbatim>\<open>structure_ID\<close>, the
  conformation request with a record of \<^verbatim>\<open>DFG\<close>, \<^verbatim>\<open>ac_helix\<close> and a distance
  \<^verbatim>\<open>salt_bridge_17_24\<close> that \<^verbatim>\<open>float\<close> converts): the turn of the loop appends the row
  (to \<^verbatim>\<open>pdbs\<close>, and its PDB id to \<^verbatim>\<open>check_duplicates\<close>) if and only if every criteria
  field that is not \<^verbatim>\<open>all\<close> equals the observed value, the observed salt bridge being
  \<^verbatim>\<open>yes\<close> exactly when the distance is above 0 and at most 4.5, and \<^verbatim>\<open>no\<close> otherwise.
  With \<open>(in, all, all)\<close> this is: the observed DFG is \<^verbatim>\<open>in\<close>; with
  \<open>(all, all, all)\<close> it is always the case.
\<close>

theorem process_line_conformation:
  assumes t: "templates = TTuple [dfg, ac_helix, salt_bridge] # rest"
    and valid_dfg: "dfg \<in> set [''in'', ''out'', ''out-like'', ''all'']"
    and valid_helix: "ac_helix \<in> set [''in'', ''out'', ''all'']"
    and valid_salt: "salt_bridge \<in> set [''yes'', ''no'', ''all'']"
    and cols: "2 \<le> length (split_ws (rstrip line))"
    and pdb: "pdb = split_ws (rstrip line) ! 1"
    and fresh: "pdbid_of pdb \<notin> set check_duplicates"
    and not_excluded: "TStr (pdbid_of pdb) \<notin> set templates"
    and lookup: "http env (net s) (GetKlifsStructuresPdbList (pdbid_of pdb))
                   = (Response body1 (Some (JArr (JObj found # others1))), w1)"
    and sid: "dict_get found ''structure_ID'' = Some structure_ID"
    and conf: "http env w1 (GetKlifsStructureConformation structure_ID)
                   = (Response body2 (Some (JArr (JObj observed # others2))), w2)"
    and obs_dfg: "dict_get observed ''DFG'' = Some obs_dfg"
    and obs_helix: "dict_get observed ''ac_helix'' = Some obs_helix"
    and obs_salt: "dict_get observed ''salt_bridge_17_24'' = Some obs_salt"
    and dist: "py_float env obs_salt = Inr distance"
  shows "process_line env templates line (pdbs, check_duplicates, s) =
           Inr (if (dfg = ''all'' \<or> obs_dfg = JStr dfg)
                 \<and> (ac_helix = ''all'' \<or> obs_helix = JStr ac_helix)
                 \<and> (salt_bridge = ''all'' \<or>
                      salt_bridge = (if float_gt distance 0 \<and> float_le distance 4.5
                                     then ''yes'' else ''no''))
                then (pdbs @ [pdb], check_duplicates @ [pdbid_of pdb],
                      s\<lparr>net := w2, requests := requests s @
                          [GetKlifsStructuresPdbList (pdbid_of pdb),
                           GetKlifsStructureConformation structure_ID]\<rparr>)
                else (pdbs, check_duplicates,
                      s\<lparr>net := w2, requests := requests s @
                          [GetKlifsStructuresPdbList (pdbid_of pdb),
                           GetKlifsStructureConformation structure_ID]\<rparr>))"
proof -
  let ?s1 = "s\<lparr>net := w1, requests := requests s @ [GetKlifsStructuresPdbList (pdbid_of pdb)]\<rparr>"
  let ?s2 = "s\<lparr>net := w2, requests := requests s @
               [GetKlifsStructuresPdbList (pdbid_of pdb), GetKlifsStructureConformation structure_ID]\<rparr>"
  let ?rj2 = "JArr (JObj observed # others2)"
  let ?sb = "if float_gt distance 0 \<and> float_le distance 4.5 then ''yes'' else ''no''"
  let ?ok = "(dfg = ''all'' \<or> obs_dfg = JStr dfg) \<and> (ac_helix = ''all'' \<or> obs_helix = JStr ac_helix)
             \<and> (salt_bridge = ''all'' \<or> salt_bridge = ?sb)"
  have crit: "check_criteria (hd templates) = Inr (dfg, ac_helix, salt_bridge)"
    using check_criteria_valid [OF valid_dfg valid_helix valid_salt] t by simp
  have g1: "get_json env (GetKlifsStructuresPdbList (pdbid_of pdb)) s
              = Inr (JArr (JObj found # others1), ?s1)"
    using get_json_parsed [OF lookup] .
  have "http env (net ?s1) (GetKlifsStructureConformation structure_ID)
          = (Response body2 (Some ?rj2), w2)"
    using conf by simp
  from get_json_parsed [OF this]
  have g2: "get_json env (GetKlifsStructureConformation structure_ID) ?s1 = Inr (?rj2, ?s2)"
    by simp
  have m: "conformation_match env dfg ac_helix salt_bridge ?rj2 = Inr ?ok"
    using conformation_match_conjunction [OF ref_sb_observed [OF obs_salt dist]
        field_eq_observed [OF obs_dfg] field_eq_observed [OF obs_helix]] .
  have step: "conformation_step env templates pdb (pdbid_of pdb) (pdbs, check_duplicates, s)
        = Inr (if ?ok then (pdbs @ [pdb], check_duplicates @ [pdbid_of pdb], ?s2)
               else (pdbs, check_duplicates, ?s2))"
    unfolding conformation_step_def
    by (simp only: prod.case sum.case crit g1 g2 m subscript_0.simps list.case
        eq_int.simps subscript_key.simps sid option.case if_False accept_def)
  have len: "tmpl_len (hd templates) = 3" using t by simp
  have act: "activation_step env templates pdb (pdbid_of pdb) (pdbs, check_duplicates, s)
        = Inr (pdbs, check_duplicates, s)"
    unfolding t by (rule activation_step_tuple)
  have ne: "templates \<noteq> []" using t by simp
  have nl: "\<not> length (split_ws (rstrip line)) < 2" using cols by simp
  show ?thesis
    unfolding process_line_def Let_def pdb [symmetric]
    by (simp only: nl ne if_False act sum.case prod.case len fresh not_excluded
        simp_thms if_True step)
qed

text \<open>
  The criteria \<open>(in, all, all)\<close> and a row whose structure is observed with DFG
  \<^verbatim>\<open>in\<close>, the helix \<^verbatim>\<open>out\<close> and a distance of 7.2: the row is appended.
\<close>

theorem process_line_conformation_witness:
  "process_line example_env [TTuple [''in'', ''all'', ''all'']]
     (''101 4agd_A 0.9 9 0 0 1 9 1 9 1e-5 50'' @ [CHR 0x0A])
     ([], [], example_world Map.empty
        [Response ''list'' (Some (JArr [JObj [(''structure_ID'', JInt 7)]])),
         Response ''conformation''
           (Some (JArr [JObj [(''DFG'', JStr ''in''), (''ac_helix'', JStr ''out''),
                              (''salt_bridge_17_24'', JFloat (Finite 7.2))]]))])
   = Inr ([''4agd_A''], [''4AGD''],
          (example_world Map.empty [])
            \<lparr>requests := [GetKlifsStructuresPdbList ''4AGD'',
                           GetKlifsStructureConformation (JInt 7)]\<rparr>)"
proof -
  let ?line = "''101 4agd_A 0.9 9 0 0 1 9 1 9 1e-5 50'' @ [CHR 0x0A]"
  let ?conf = "Response ''conformation''
           (Some (JArr [JObj [(''DFG'', JStr ''in''), (''ac_helix'', JStr ''out''),
                              (''salt_bridge_17_24'', JFloat (Finite 7.2))]]))"
  let ?w = "example_world Map.empty
        [Response ''list'' (Some (JArr [JObj [(''structure_ID'', JInt 7)]])), ?conf]"
  have sl: "split_ws (rstrip ?line)
      = [''101'', ''4agd_A'', ''0.9'', ''9'', ''0'', ''0'', ''1'', ''9'', ''1'', ''9'', ''1e-5'', ''50'']"
    by (simp add: split_ws_def rstrip_def is_space_def)
  have cols: "2 \<le> length (split_ws (rstrip ?line))" unfolding sl by simp
  have pdb: "''4agd_A'' = split_ws (rstrip ?line) ! 1" unfolding sl by simp
  have pdbid: "pdbid_of ''4agd_A'' = ''4AGD''"
    by (simp add: pdbid_of_def split_sep_def upper_def upper_char_def)
  have fresh: "pdbid_of ''4agd_A'' \<notin> set []" by simp
  have not_excluded: "TStr (pdbid_of ''4agd_A'') \<notin> set [TTuple [''in'', ''all'', ''all'']]" by simp
  have lookup: "http example_env (net ?w) (GetKlifsStructuresPdbList (pdbid_of ''4agd_A''))
      = (Response ''list'' (Some (JArr (JObj [(''structure_ID'', JInt 7)] # []))), [?conf])"
    by (simp add: example_env_def example_world_def scripted_def)
  have sid: "dict_get [(''structure_ID'', JInt 7)] ''structure_ID'' = Some (JInt 7)"
    by (simp add: dict_get_def)
  have conf: "http example_env [?conf] (GetKlifsStructureConformation (JInt 7))
      = (Response ''conformation''
           (Some (JArr (JObj [(''DFG'', JStr ''in''), (''ac_helix'', JStr ''out''),
                              (''salt_bridge_17_24'', JFloat (Finite 7.2))] # []))), [])"
    by (simp add: example_env_def scripted_def)
  have obs_dfg: "dict_get [(''DFG'', JStr ''in''), (''ac_helix'', JStr ''out''),
                   (''salt_bridge_17_24'', JFloat (Finite 7.2))] ''DFG'' = Some (JStr ''in'')"
    by (simp add: dict_get_def)
  have obs_helix: "dict_get [(''DFG'', JStr ''in''), (''ac_helix'', JStr ''out''),
                   (''salt_bridge_17_24'', JFloat (Finite 7.2))] ''ac_helix'' = Some (JStr ''out'')"
    by (simp add: dict_get_def)
  have obs_salt: "dict_get [(''DFG'', JStr ''in''), (''ac_helix'', JStr ''out''),
                   (''salt_bridge_17_24'', JFloat (Finite 7.2))] ''salt_bridge_17_24''
                   = Some (JFloat (Finite 7.2))"
    by (simp add: dict_get_def)
  have dist: "py_float example_env (JFloat (Finite 7.2)) = Inr (Finite 7.2)"
    by (simp add: example_env_def)
  have "process_line example_env [TTuple [''in'', ''all'', ''all'']] ?line ([], [], ?w)
      = Inr (if (''in'' = ''all'' \<or> JStr ''in'' = JStr ''in'')
                 \<and> (''all'' = ''all'' \<or> JStr ''out'' = JStr ''all'')
                 \<and> (''all'' = ''all'' \<or>
                      ''all'' = (if float_gt (Finite 7.2) 0 \<and> float_le (Finite 7.2) 4.5
                                 then ''yes'' else ''no''))
             then ([] @ [''4agd_A''], [] @ [pdbid_of ''4agd_A''],
                   ?w\<lparr>net := [], requests := requests ?w @
                          [GetKlifsStructuresPdbList (pdbid_of ''4agd_A''),
                           GetKlifsStructureConformation (JInt 7)]\<rparr>)
             else ([], [],
                   ?w\<lparr>net := [], requests := requests ?w @
                          [GetKlifsStructuresPdbList (pdbid_of ''4agd_A''),
                           GetKlifsStructureConformation (JInt 7)]\<rparr>))"
    by (rule process_line_conformation [OF refl _ _ _ cols pdb fresh not_excluded lookup sid
          conf obs_dfg obs_helix obs_salt dist]) simp_all
  then show ?thesis by (simp add: pdbid example_world_def)
qed

subsection \<open>No PDB id twice\<close>

lemma activation_step_cases:
  assumes "activation_step env templates pdb pdbid (pdbs, cd, s) = Inr (pdbs', cd', s')"
  shows "(pdbs' = pdbs \<and> cd' = cd) \<or> (pdbid \<notin> set cd \<and> pdbs' = pdbs @ [pdb] \<and> cd' = cd @ [pdbid])"
  using assms
  by (auto simp: activation_step_def accept_def split: if_splits sum.splits prod.splits)

lemma conformation_step_cases:
  assumes "conformation_step env templates pdb pdbid (pdbs, cd, s) = Inr (pdbs', cd', s')"
  shows "(pdbs' = pdbs \<and> cd' = cd) \<or> (pdbs' = pdbs @ [pdb] \<and> cd' = cd @ [pdbid])"
  using assms
  by (auto simp: conformation_step_def accept_def split: if_splits sum.splits prod.splits)

lemma dedup_inv_accept:
  "dedup_inv (pdbs, cd, s) \<Longrightarrow> pdbid_of pdb \<notin> set cd \<Longrightarrow>
   dedup_inv (pdbs @ [pdb], cd @ [pdbid_of pdb], s')"
  by (auto simp: dedup_inv_def)

lemma dedup_inv_world: "dedup_inv (pdbs, cd, s) \<Longrightarrow> dedup_inv (pdbs, cd, s')"
  by (auto simp: dedup_inv_def)

text \<open>
  A turn of the loop keeps the invariant when the row is not one of the caller's codes:
  the two filters append a row only below the test that its PDB id is new.
\<close>

lemma process_line_dedup_inv:
  assumes nolit: "2 \<le> length (split_ws (rstrip line)) \<longrightarrow>
                    TStr (split_ws (rstrip line) ! 1) \<notin> set templates"
    and run: "process_line env templates line sel = Inr sel'"
    and inv: "dedup_inv sel"
  shows "dedup_inv sel'"
proof -
  obtain pdbs cd s where sel: "sel = (pdbs, cd, s)" by (cases sel) auto
  obtain pdbs' cd' s' where sel': "sel' = (pdbs', cd', s')" by (cases sel') auto
  let ?sl = "split_ws (rstrip line)"
  let ?pdb = "?sl ! 1"
  from run have cols: "2 \<le> length ?sl"
    by (auto simp: process_line_def Let_def split: if_splits)
  with nolit have nl: "TStr ?pdb \<notin> set templates" by simp
  show ?thesis
  proof (cases "templates = []")
    case True
    with run cols inv show ?thesis by (simp add: process_line_def Let_def)
  next
    case False
    from run cols False obtain pdbs1 cd1 s1 where
      act: "activation_step env templates ?pdb (pdbid_of ?pdb) (pdbs, cd, s) = Inr (pdbs1, cd1, s1)"
      by (auto simp: process_line_def Let_def sel split: sum.splits)
    from activation_step_cases [OF act] inv
    have inv1: "dedup_inv (pdbs1, cd1, s1)"
      unfolding sel using dedup_inv_accept dedup_inv_world by blast
    show ?thesis
    proof (cases "tmpl_len (hd templates) = 3 \<and> pdbid_of ?pdb \<notin> set cd1
                    \<and> TStr (pdbid_of ?pdb) \<notin> set templates")
      case True
      with run cols False act
      have "conformation_step env templates ?pdb (pdbid_of ?pdb) (pdbs1, cd1, s1) = Inr (pdbs', cd', s')"
        by (simp add: process_line_def Let_def sel sel')
      from conformation_step_cases [OF this] True inv1 show ?thesis
        unfolding sel' using dedup_inv_accept dedup_inv_world by blast
    next
      case no_conf: False
      with run cols False act nl have "sel' = (pdbs1, cd1, s1)"
        by (auto simp: process_line_def Let_def sel split: if_splits)
      with inv1 show ?thesis by simp
    qed
  qed
qed

lemma scan_table_dedup_inv:
  assumes "\<forall>line \<in> set lines. 2 \<le> length (split_ws (rstrip line)) \<longrightarrow>
                    TStr (split_ws (rstrip line) ! 1) \<notin> set templates"
    and "scan_table env templates lines sel = Inr sel'"
    and "dedup_inv sel"
  shows "dedup_inv sel'"
  using assms
proof (induction lines arbitrary: sel)
  case Nil
  then show ?case by simp
next
  case (Cons line lines)
  from Cons.prems(2) obtain sel1 where
    one: "process_line env templates line sel = Inr sel1"
    and rest: "scan_table env templates lines sel1 = Inr sel'"
    by (auto split: sum.splits)
  from Cons.prems(1) have "2 \<le> length (split_ws (rstrip line)) \<longrightarrow>
                    TStr (split_ws (rstrip line) ! 1) \<notin> set templates" by simp
  from process_line_dedup_inv [OF this one Cons.prems(3)] have "dedup_inv sel1" .
  with Cons.IH [OF _ rest] Cons.prems(1) show ?case by simp
qed

text \<open>
  Claim C1 as the specification states it fails for a literal list of codes: the
  \<^verbatim>\<open>elif pdb in templates\<close> branch appends every row whose code is in the list and
  never looks at \<^verbatim>\<open>check_duplicates\<close>. With the chains A and B of one structure in the
  list and in the table, both are candidates, and both have the PDB id 1ABC.
\<close>

theorem select_templates_literal_duplicate:
  "map_sum id fst (select_templates example_env example_runner [TStr ''1abc_A'', TStr ''1abc_B'']
      (example_world [''test_0a1b2_env/pdb70.m8'' \<mapsto> example_table] []))
     = Inr [''1abc_A'', ''1abc_B'']
   \<and> map pdbid_of [''1abc_A'', ''1abc_B''] = [''1ABC'', ''1ABC'']"
  by (simp add: eval_defs)

text \<open>
  Claim C1, amended. For every table and every criteria (an activation state, a
  conformation tuple, or anything else) such that no row's code stands verbatim in the
  caller's list, the candidate list that the loop of \<^verbatim>\<open>process_templates\<close> ends with
  never holds two entries with the same PDB id (upper-cased, chain dropped). Rows whose
  code does stand verbatim in the caller's list are appended without that check.
\<close>

theorem select_templates_no_duplicate_pdbid:
  assumes table: "files s (path self @ ''/pdb70.m8'') = Some table"
    and nolit: "\<forall>line \<in> set (lines_from [] table). 2 \<le> length (split_ws (rstrip line)) \<longrightarrow>
                    TStr (split_ws (rstrip line) ! 1) \<notin> set templates"
    and run: "select_templates env self templates s = Inr (pdbs, check_duplicates, s')"
  shows "distinct (map pdbid_of pdbs)"
proof -
  from run table have "scan_table env templates (lines_from [] table) ([], [], s)
      = Inr (pdbs, check_duplicates, s')"
    by (simp add: select_templates_def)
  moreover have "dedup_inv ([], [], s)" by (simp add: dedup_inv_def)
  ultimately have "dedup_inv (pdbs, check_duplicates, s')"
    using scan_table_dedup_inv [OF nolit] by blast
  then show ?thesis by (auto simp: dedup_inv_def)
qed

text \<open>
  The activation state Active and the table of three rows, GPCRdb answering Active for
  both structures: chain B of the first structure is passed over.
\<close>

theorem select_templates_no_duplicate_pdbid_witness:
  "select_templates example_env example_runner [TStr ''Active'']
        (example_world [''test_0a1b2_env/pdb70.m8'' \<mapsto> example_table]
           [Response ''1abc'' (Some (JObj [(''state'', JStr ''Active'')])),
            Response ''2xyz'' (Some (JObj [(''state'', JStr ''Active'')]))])
      = Inr ([''1abc_A'', ''2xyz_A''], [''1ABC'', ''2XYZ''],
             (example_world [''test_0a1b2_env/pdb70.m8'' \<mapsto> example_table] [])
               \<lparr>requests := [GetGpcrdbStructure ''1ABC'', GetGpcrdbStructure ''2XYZ'']\<rparr>)
   \<and> distinct (map pdbid_of [''1abc_A'', ''2xyz_A''])"
proof -
  let ?w = "example_world [''test_0a1b2_env/pdb70.m8'' \<mapsto> example_table]
           [Response ''1abc'' (Some (JObj [(''state'', JStr ''Active'')])),
            Response ''2xyz'' (Some (JObj [(''state'', JStr ''Active'')]))]"
  have table: "files ?w (path example_runner @ ''/pdb70.m8'') = Some example_table"
    by (simp add: example_world_def example_runner_def path_def)
  have nolit: "\<forall>line \<in> set (lines_from [] example_table).
         2 \<le> length (split_ws (rstrip line)) \<longrightarrow>
         TStr (split_ws (rstrip line) ! 1) \<notin> set [TStr ''Active'']"
    by (simp add: example_table_def split_ws_def rstrip_def is_space_def)
  have run: "select_templates example_env example_runner [TStr ''Active''] ?w
      = Inr ([''1abc_A'', ''2xyz_A''], [''1ABC'', ''2XYZ''],
             (example_world [''test_0a1b2_env/pdb70.m8'' \<mapsto> example_table] [])
               \<lparr>requests := [GetGpcrdbStructure ''1ABC'', GetGpcrdbStructure ''2XYZ'']\<rparr>)"
    by (simp add: eval_defs)
  from select_templates_no_duplicate_pdbid [OF table nolit run] run
  show ?thesis by blast
qed

subsection \<open>Criteria outside the allowed values\<close>








end
